theory Spec2Isabelle
  imports Main "HOL-Library.Sublist"
begin

section \<open>The process-manager descriptor\<close>

text \<open>
  The file \<^verbatim>\<open>ecosystem.config.js\<close> is a single assignment of an object literal to
  \<^verbatim>\<open>module.exports\<close>. Its value is embedded as a term of the datatype of the
  JavaScript literals the file uses. An object keeps its properties in source order, as
  \<^verbatim>\<open>Object.keys\<close> reports them.
\<close>

datatype js =
    JStr string
  | JNum int
  | JBool bool
  | JArr "js list"
  | JObj "(string \<times> js) list"

definition module_exports :: js where
  "module_exports =
     JObj [(''apps'', JArr [JObj
       [(''name'', JStr ''coda-helper''),
        (''script'', JStr ''run.py''),
        (''interpreter'', JStr ''./venv/bin/python''),
        (''instances'', JNum 1),
        (''exec_mode'', JStr ''fork''),
        (''watch'', JBool True),
        (''env'', JObj [(''PYTHONPATH'', JStr ''.'')])]])]"

text \<open>The own properties of an object, in order; a value that is no object has none.\<close>

fun entries :: "js \<Rightarrow> (string \<times> js) list" where
  "entries (JObj kvs) = kvs"
| "entries _ = []"

definition object_keys :: "js \<Rightarrow> string list" where
  "object_keys v = map fst (entries v)"

text \<open>
  Property access \<^verbatim>\<open>v[k]\<close>: \<open>None\<close> stands for \<^verbatim>\<open>undefined\<close>. Where an object
  literal repeats a key the last occurrence wins, hence the reversal.
\<close>

definition get_prop :: "js \<Rightarrow> string \<Rightarrow> js option" where
  "get_prop v k = map_of (rev (entries v)) k"

fun elems :: "js \<Rightarrow> js list" where
  "elems (JArr xs) = xs"
| "elems _ = []"

text \<open>The list \<^verbatim>\<open>module.exports.apps\<close> of managed processes.\<close>

definition apps :: "js list" where
  "apps = (case get_prop module_exports ''apps'' of Some v \<Rightarrow> elems v | None \<Rightarrow> [])"

text \<open>
  The keys that the external-interface section of the specification lists for the
  descriptor, in the order it lists them.
\<close>

definition documented_keys :: "string list" where
  "documented_keys =
     [''name'', ''script'', ''interpreter'', ''instances'', ''exec_mode'', ''watch'', ''env'']"


section \<open>Text utilities\<close>

text \<open>
  The README and the packaging manifest are kept as the lines of their text. The readers
  below extract from the lines what the statements are about.
\<close>

fun split_on :: "char \<Rightarrow> string \<Rightarrow> string list" where
  "split_on c [] = [[]]"
| "split_on c (x # xs) =
     (if x = c then [] # split_on c xs
      else (case split_on c xs of [] \<Rightarrow> [[x]] | w # ws \<Rightarrow> (x # w) # ws))"

definition words_of :: "string \<Rightarrow> string list" where
  "words_of s = filter (\<lambda>w. w \<noteq> []) (split_on CHR '' '' s)"

definition trim :: "string \<Rightarrow> string" where
  "trim s = rev (dropWhile (\<lambda>c. c = CHR '' '') (rev (dropWhile (\<lambda>c. c = CHR '' '') s)))"

definition is_digit :: "char \<Rightarrow> bool" where
  "is_digit c = (48 \<le> (of_char c :: nat) \<and> (of_char c :: nat) \<le> 57)"

definition is_upper :: "char \<Rightarrow> bool" where
  "is_upper c = (65 \<le> (of_char c :: nat) \<and> (of_char c :: nat) \<le> 90)"

definition is_lower :: "char \<Rightarrow> bool" where
  "is_lower c = (97 \<le> (of_char c :: nat) \<and> (of_char c :: nat) \<le> 122)"

definition nat_of_digits :: "string \<Rightarrow> nat option" where
  "nat_of_digits s =
     (if s \<noteq> [] \<and> list_all is_digit s
      then Some (foldl (\<lambda>n c. 10 * n + ((of_char c :: nat) - 48)) 0 s)
      else None)"

text \<open>A dotted version number, \<^verbatim>\<open>3.10\<close> or \<^verbatim>\<open>0.111.0\<close>, as its components.\<close>

definition parse_version :: "string \<Rightarrow> nat list option" where
  "parse_version s = those (map nat_of_digits (split_on CHR ''.'' s))"

section \<open>The packaging manifest\<close>

definition pyproject :: "string list" where
  "pyproject =
    [''[tool.poetry]'',
     ''name = \"fastapi-service-template\"'',
     ''version = \"0.1.0\"'',
     ''description = \"\"'',
     ''authors = [\"Duc-Minh Phan <alephvn@gmail.com>\"]'',
     ''license = \"Apache License 2.0\"'',
     ''readme = \"README.md\"'',
     '''',
     ''[tool.poetry.dependencies]'',
     ''python = \"^3.10\"'',
     ''fastapi = \"^0.111.0\"'',
     ''pydantic = \"^2.7.1\"'',
     ''pydantic-settings = \"^2.2.1\"'',
     ''python-dotenv = \"^1.0.1\"'',
     ''uvicorn = \"^0.29.0\"'',
     '''',
     ''[tool.poetry.group.dev.dependencies]'',
     ''asgiref = \"^3.8.1\"'',
     ''coverage = \"^7.5.1\"'',
     ''httpx = \"^0.27.0\"'',
     ''pytest = \"^7.4.4\"'',
     ''pytest-asyncio = \"^0.21.2\"'',
     ''pytest-cov = \"^4.1.0\"'',
     ''pytest-mock = \"^3.14.0\"'',
     '''',
     ''[build-system]'',
     ''requires = [\"poetry-core\"]'',
     ''build-backend = \"poetry.core.masonry.api\"'',
     '''',
     ''[tool.ruff]'',
     ''# Same as Black.'',
     ''line-length = 88'',
     '''',
     ''target-version = \"py310\"'',
     '''',
     ''extend-exclude = [\"migrations\"]'',
     '''',
     ''[tool.ruff.lint]'',
     ''select = ['',
     ''    \"F\", # Pyflakes'',
     ''    \"E\", # Pycodestyle'',
     ''    \"W\", # Pycodestyle'',
     ''    \"I\", # isort'',
     ''    \"ASYNC\", # flake8-async'',
     ''    \"S\", # flake8-bandit'',
     ''    \"COM\", # flake8-commas'',
     ''    \"C4\", # flake8-comprehensions'',
     ''    \"ISC\", # flake8-implicit-str-concat'',
     ''    \"INP\", # flake8-no-pep420'',
     ''    \"T20\", # flake8-print'',
     ''    \"RSE\", # flake8-raise'',
     ''    \"RET\", # flake8-return'',
     ''    \"SIM\", # flake8-simplify'',
     ''    \"C90\", # mccabe'',
     ''    \"PERF\", # perflint'',
     ''    \"UP\", # pyupgrade'',
     ''    \"RUF\", # Ruff-specific rules'',
     '']'',
     '''',
     ''ignore = ['',
     ''    \"S101\",'',
     ''    \"S105\",'',
     ''    \"S301\",'',
     ''    # need to be fixed for Pydantic models:'',
     ''    # https://github.com/astral-sh/ruff/issues/5243'',
     ''    \"RUF012\",'',
     '']'',
     '''',
     ''[tool.ruff.lint.isort]'',
     ''lines-after-imports = 2'',
     ''split-on-trailing-comma = false'',
     ''forced-separate = [\"tests\"]'',
     '''',
     ''[tool.ruff.lint.mccabe]'',
     ''max-complexity = 10'',
     '''',
     ''[tool.ruff.lint.per-file-ignores]'',
     ''\"__init__.py\" = [\"F401\"]'',
     ''\"tests/*\" = [\"S106\", \"S311\", \"ASYNC101\"]'',
     '''',
     ''[tool.mypy]'',
     ''ignore_missing_imports = true'',
     ''strict_optional = true'',
     ''follow_imports = \"silent\"'',
     ''check_untyped_defs = true'',
     ''plugins = [\"pydantic.mypy\"]'',
     '''',
     ''[[tool.mypy.overrides]]'',
     ''module = \"tests.*\"'',
     ''disable_error_code = \"var-annotated\"'',
     '''',
     ''[tool.coverage.run]'',
     ''source = [\"main\"]'',
     ''concurrency = [\"greenlet\", \"thread\"]'',
     '''',
     ''[tool.coverage.report]'',
     ''exclude_lines = ['',
     ''    \"pragma: no cover\",'',
     ''    \"def __repr__\",'',
     ''    \"raise AssertionError\",'',
     ''    \"raise NotImplementedError\",'',
     ''    \"if __name__ == .__main__.:\",'',
     ''    \"if TYPE_CHECKING:\",'',
     ''    \"@abstractmethod\",'',
     ''    \"@overload\",'',
     '']'']"

text \<open>
  A table header is a line that opens with a bracket; the body of the table
  \<^verbatim>\<open>[name]\<close> is every line after its header up to the next header.
\<close>

definition is_header :: "string \<Rightarrow> bool" where
  "is_header l = (take 1 l = ''['')"

fun table_body :: "string \<Rightarrow> string list \<Rightarrow> string list" where
  "table_body name [] = []"
| "table_body name (l # ls) =
     (if l = ''['' @ name @ '']'' then takeWhile (\<lambda>x. \<not> is_header x) ls
      else table_body name ls)"

text \<open>
  A key/value line is \<^verbatim>\<open>key = value\<close> with the key in the first column; the
  continuation lines of an array over several lines are indented and comments open
  with a hash, so neither is one.
\<close>

definition key_value :: "string \<Rightarrow> (string \<times> string) option" where
  "key_value l =
     (let k = takeWhile (\<lambda>c. c \<noteq> CHR '' '') l;
          r = dropWhile (\<lambda>c. c \<noteq> CHR '' '') l
      in if k \<noteq> [] \<and> take 3 r = '' = '' then Some (k, drop 3 r) else None)"

definition table :: "string \<Rightarrow> string list \<Rightarrow> (string \<times> string) list" where
  "table name ls = List.map_filter key_value (table_body name ls)"

text \<open>A basic string \<^verbatim>\<open>"..."\<close> and an array of basic strings on one line.\<close>

definition unquote :: "string \<Rightarrow> string option" where
  "unquote s =
     (let inner = take (length s - 2) (drop 1 s)
      in if 2 \<le> length s \<and> take 1 s = [CHR 0x22] \<and> drop (length s - 1) s = [CHR 0x22]
            \<and> CHR 0x22 \<notin> set inner
         then Some inner else None)"

definition toml_array :: "string \<Rightarrow> string list option" where
  "toml_array s =
     (let inner = trim (take (length s - 2) (drop 1 s))
      in if 2 \<le> length s \<and> take 1 s = ''['' \<and> drop (length s - 1) s = '']''
         then (if inner = [] then Some []
               else those (map (\<lambda>x. unquote (trim x)) (split_on CHR '','' inner)))
         else None)"

definition string_table :: "string \<Rightarrow> string list \<Rightarrow> (string \<times> string option) list" where
  "string_table name ls = map (\<lambda>(k, v). (k, unquote v)) (table name ls)"

text \<open>
  A caret constraint \<^verbatim>\<open>^X.Y.Z\<close> of the package manager: the version after the caret
  is the least version allowed.
\<close>

definition caret :: "string \<Rightarrow> nat list option" where
  "caret s = (case s of [] \<Rightarrow> None | c # v \<Rightarrow> if c = CHR ''^'' then parse_version v else None)"

definition dependencies :: "(string \<times> string option) list" where
  "dependencies = string_table ''tool.poetry.dependencies'' pyproject"

definition dev_dependencies :: "(string \<times> string option) list" where
  "dev_dependencies = string_table ''tool.poetry.group.dev.dependencies'' pyproject"

definition coverage_run :: "(string \<times> string list option) list" where
  "coverage_run = map (\<lambda>(k, v). (k, toml_array v)) (table ''tool.coverage.run'' pyproject)"

section \<open>The README\<close>

definition readme :: "string list" where
  "readme =
    [''# FastAPI Service Template'',
     '''',
     ''## Requirements'',
     '''',
     ''- Python 3.10+'',
     ''- [Poetry](https://python-poetry.org/)'',
     '''',
     ''## Installation'',
     '''',
     ''### Clone the project'',
     '''',
     ''```shell'',
     ''git clone git@github.com:ducminh-phan/fastapi-service-template.git'',
     ''cd fastapi-service-template'',
     ''```'',
     '''',
     ''### Set up virtual environment'',
     '''',
     ''```shell'',
     ''pyenv local 3.10.9'',
     ''pyenv exec python3 -m venv venv'',
     ''source ./venv/bin/activate'',
     ''```'',
     '''',
     ''### Install dependencies'',
     '''',
     ''```shell'',
     ''poetry install'',
     ''```'',
     '''',
     ''### Install `pre-commit` hooks'',
     '''',
     ''- Install `pre-commit`: https://pre-commit.com/ (should be installed globally)'',
     ''- Install `pre-commit` hooks:'',
     '''',
     ''  ```shell'',
     ''  make install-git-hooks'',
     ''  ```'',
     '''',
     ''## Running'',
     '''',
     ''Inside the virtual environment, run'',
     '''',
     ''```shell'',
     ''make run'',
     ''```'',
     '''',
     ''### Run tests'',
     '''',
     ''Inside the virtual environment, run'',
     '''',
     ''```shell'',
     ''make test'',
     ''```'']"

text \<open>
  The README is Markdown: headings open with hashes, and the commands an operator types
  stand in fenced code blocks. The scan keeps, for every line that is not blank, not a
  heading and not a fence, its line number in the repository's file, the titles of the
  sections around it (outermost first), whether it stands in a code block, and its text.
\<close>

definition heading_level :: "string \<Rightarrow> nat" where
  "heading_level l = length (takeWhile (\<lambda>c. c = CHR ''#'') l)"

definition is_heading :: "string \<Rightarrow> bool" where
  "is_heading l = (0 < heading_level l \<and> take 1 (drop (heading_level l) l) = '' '')"

definition heading_title :: "string \<Rightarrow> string" where
  "heading_title l = trim (drop (heading_level l) l)"

definition is_fence :: "string \<Rightarrow> bool" where
  "is_fence l = (take 3 (trim l) = [CHR 0x60, CHR 0x60, CHR 0x60])"

record item =
  line_no :: nat
  path :: "string list"
  in_code :: bool
  content :: string

fun scan :: "(nat \<times> string) list \<Rightarrow> bool \<Rightarrow> (nat \<times> string) list \<Rightarrow> item list" where
  "scan stack code [] = []"
| "scan stack code ((n, l) # ls) =
     (if is_fence l then scan stack (\<not> code) ls
      else if trim l = [] then scan stack code ls
      else if code then
        \<lparr>line_no = n, path = rev (map snd stack), in_code = True, content = trim l\<rparr>
          # scan stack code ls
      else if is_heading l then
        scan ((heading_level l, heading_title l)
                # dropWhile (\<lambda>(k, t). heading_level l \<le> k) stack) code ls
      else
        \<lparr>line_no = n, path = rev (map snd stack), in_code = False, content = trim l\<rparr>
          # scan stack code ls)"

text \<open>The README starts at line 14 of the file that carries it.\<close>

definition readme_items :: "item list" where
  "readme_items = scan [] False (enumerate 14 readme)"

text \<open>
  The commands and the prose of a section, its subsections included, each with its line
  number.
\<close>

definition commands_in :: "string \<Rightarrow> item list \<Rightarrow> (nat \<times> string) list" where
  "commands_in title its =
     map (\<lambda>i. (line_no i, content i)) (filter (\<lambda>i. in_code i \<and> title \<in> set (path i)) its)"

definition prose_in :: "string \<Rightarrow> item list \<Rightarrow> (nat \<times> string) list" where
  "prose_in title its =
     map (\<lambda>i. (line_no i, content i)) (filter (\<lambda>i. \<not> in_code i \<and> title \<in> set (path i)) its)"


text \<open>
  The directory that a command \<^verbatim>\<open>... -m venv DIR\<close> creates: the word after the module
  name, given the words of the command.
\<close>

fun venv_target :: "string list \<Rightarrow> string option" where
  "venv_target (a # b # d # ws) =
     (if a = ''-m'' \<and> b = ''venv'' then Some d else venv_target (b # d # ws))"
| "venv_target ws = None"

definition venv_dirs :: "string list" where
  "venv_dirs =
     List.map_filter (\<lambda>(n, c). venv_target (words_of c))
       (commands_in ''Set up virtual environment'' readme_items)"

text \<open>A requirement \<^verbatim>\<open>- Python X.Y+\<close> of the README names the least interpreter version.\<close>

definition python_requirement :: "string \<Rightarrow> nat list option" where
  "python_requirement l =
     (case words_of l of
        [b, p, v] \<Rightarrow>
          if b = ''-'' \<and> p = ''Python'' \<and> v \<noteq> [] \<and> last v = CHR ''+''
          then parse_version (butlast v) else None
      | _ \<Rightarrow> None)"

definition python_requirements :: "(nat \<times> nat list) list" where
  "python_requirements =
     List.map_filter (\<lambda>(n, l). map_option (Pair n) (python_requirement l))
       (prose_in ''Requirements'' readme_items)"

text \<open>The commands of the README that call the build-automation tool, with their sections.\<close>

definition make_commands :: "item list \<Rightarrow> (string list \<times> string list) list" where
  "make_commands its =
     map (\<lambda>i. (path i, words_of (content i)))
       (filter (\<lambda>i. in_code i \<and> take 1 (words_of (content i)) = [''make'']) its)"

section \<open>The supplied files as text\<close>

definition ecosystem_config :: "string list" where
  "ecosystem_config =
    [''module.exports = {'',
     ''  apps: [{'',
     ''    name: \"coda-helper\",'',
     ''    script: \"run.py\",'',
     ''    interpreter: \"./venv/bin/python\",'',
     ''    instances: 1,'',
     ''    exec_mode: \"fork\",'',
     ''    watch: true,'',
     ''    env: {'',
     ''      PYTHONPATH: \".\"'',
     ''    }'',
     ''  }]'',
     ''}'']"

text \<open>
  The identifiers of a line are its maximal runs of letters, digits and underscores.
  The occurrences of a name in a text are, for every line that contains the name at
  all, the line's number and those of its identifiers that contain the name.
\<close>

definition is_ident_char :: "char \<Rightarrow> bool" where
  "is_ident_char c = (is_digit c \<or> is_upper c \<or> is_lower c \<or> c = CHR ''_'')"

definition idents :: "string \<Rightarrow> string list" where
  "idents s = words_of (map (\<lambda>c. if is_ident_char c then c else CHR '' '') s)"

definition occurrences :: "string \<Rightarrow> nat \<Rightarrow> string list \<Rightarrow> (nat \<times> string list) list" where
  "occurrences w n ls =
     map (\<lambda>(i, l). (i, filter (sublist w) (idents l)))
       (filter (\<lambda>(i, l). sublist w l) (enumerate n ls))"

text \<open>A rule of a make file for the target \<open>t\<close> opens with \<^verbatim>\<open>t:\<close> in the first column.\<close>

definition rules_for :: "string \<Rightarrow> string list \<Rightarrow> string list" where
  "rules_for t ls = filter (\<lambda>l. take (length t + 1) l = t @ '':'') ls"

text \<open>The string literals of a line of the descriptor, and the key a line binds.\<close>

fun odds :: "'a list \<Rightarrow> 'a list" where
  "odds (a # b # xs) = b # odds xs"
| "odds xs = []"

definition quoted :: "string \<Rightarrow> string list" where
  "quoted l = odds (split_on (CHR 0x22) l)"

definition bound_key :: "string \<Rightarrow> string option" where
  "bound_key l =
     (let t = trim l; k = takeWhile (\<lambda>c. c \<noteq> CHR '':'') t
      in if k \<noteq> [] \<and> list_all is_ident_char k \<and> take 1 (drop (length k) t) = '':''
         then Some k else None)"

fun js_keys :: "js \<Rightarrow> string list" where
  "js_keys (JObj kvs) = concat (map (\<lambda>(k, v). k # js_keys v) kvs)"
| "js_keys (JArr xs) = concat (map js_keys xs)"
| "js_keys v = []"

fun js_strings :: "js \<Rightarrow> string list" where
  "js_strings (JStr s) = [s]"
| "js_strings (JObj kvs) = concat (map (\<lambda>(k, v). js_strings v) kvs)"
| "js_strings (JArr xs) = concat (map js_strings xs)"
| "js_strings v = []"

section \<open>Properties of the readers\<close>

text \<open>Splitting keeps every character but the separator, and no piece holds one.\<close>

lemma split_on_not_Nil: "split_on c s \<noteq> []"
  by (induction s) (auto split: list.splits)

lemma split_on_pieces: "w \<in> set (split_on c s) \<Longrightarrow> c \<notin> set w"
  by (induction s arbitrary: w) (auto split: list.splits if_splits)

lemma concat_split_on: "concat (split_on c s) = filter (\<lambda>x. x \<noteq> c) s"
  by (induction s) (auto split: list.splits)

lemma length_split_on: "length (split_on c s) = Suc (count_list s c)"
  by (induction s) (auto split: list.splits)

lemma split_on_chars: "w \<in> set (split_on c s) \<Longrightarrow> set w \<subseteq> set s"
proof (induction s arbitrary: w)
  case Nil
  then show ?case by simp
next
  case (Cons a s)
  show ?case
  proof (cases "a = c")
    case True
    with Cons.prems have "w = [] \<or> w \<in> set (split_on c s)" by simp
    with Cons.IH show ?thesis by auto
  next
    case False
    obtain v vs where sp: "split_on c s = v # vs"
      using split_on_not_Nil [of c s] by (cases "split_on c s") simp_all
    with False Cons.prems have "w = a # v \<or> w \<in> set vs" by simp
    moreover have "set v \<subseteq> set s" using Cons.IH [of v] sp by simp
    moreover have "u \<in> set vs \<Longrightarrow> set u \<subseteq> set s" for u using Cons.IH [of u] sp by simp
    ultimately show ?thesis by auto
  qed
qed

lemma words_of_word:
  assumes "w \<in> set (words_of s)"
  shows "w \<noteq> [] \<and> CHR '' '' \<notin> set w"
  using assms split_on_pieces [of w "CHR '' ''" s] by (auto simp: words_of_def)

lemma idents_chars:
  assumes "w \<in> set (idents l)"
  shows "list_all is_ident_char w"
proof -
  let ?f = "\<lambda>c. if is_ident_char c then c else CHR '' ''"
  from assms have w: "w \<in> set (split_on CHR '' '' (map ?f l))"
    by (simp add: idents_def words_of_def)
  have "is_ident_char x" if x: "x \<in> set w" for x
  proof -
    from x split_on_pieces [OF w] have ns: "x \<noteq> CHR '' ''" by blast
    from x split_on_chars [OF w] have "x \<in> set (map ?f l)" by blast
    then have "x \<in> ?f ` set l" by (simp only: set_map)
    then obtain y where "x = ?f y" by (rule imageE)
    with ns show "is_ident_char x" by (cases "is_ident_char y") simp_all
  qed
  then show ?thesis by (simp add: list_all_iff)
qed

text \<open>
  The manifest reader takes a line \<^verbatim>\<open>key = value\<close> apart and nothing else: what it
  returns puts the line together again, and neither an indented nor an empty line is a
  key/value line.
\<close>

lemma key_value_line:
  assumes "k \<noteq> []" and "CHR '' '' \<notin> set k"
  shows "key_value (k @ '' = '' @ v) = Some (k, v)"
proof -
  have tw: "takeWhile (\<lambda>c. c \<noteq> CHR '' '') (k @ '' = '' @ v) = k"
    using assms(2) by (induction k) auto
  have dw: "dropWhile (\<lambda>c. c \<noteq> CHR '' '') (k @ '' = '' @ v) = '' = '' @ v"
    using assms(2) by (induction k) auto
  show ?thesis
    unfolding key_value_def tw dw using assms(1) by simp
qed

lemma key_value_Some:
  assumes "key_value l = Some (k, v)"
  shows "l = k @ '' = '' @ v"
proof -
  let ?P = "\<lambda>c. c \<noteq> CHR '' ''"
  from assms have k: "k = takeWhile ?P l" and t: "take 3 (dropWhile ?P l) = '' = ''"
    and v: "v = drop 3 (dropWhile ?P l)"
    by (auto simp: key_value_def Let_def split: if_splits)
  have "l = takeWhile ?P l @ take 3 (dropWhile ?P l) @ drop 3 (dropWhile ?P l)"
    by simp
  then show ?thesis
    unfolding t k v by simp
qed

lemma key_value_indented: "key_value (CHR '' '' # l) = None"
  by (simp add: key_value_def)

lemma key_value_blank: "key_value [] = None"
  by (simp add: key_value_def)

lemma unquote_quote:
  assumes "CHR 0x22 \<notin> set s"
  shows "unquote (CHR 0x22 # s @ [CHR 0x22]) = Some s"
  using assms by (simp add: unquote_def)

lemma table_body_no_header: "l \<in> set (table_body name ls) \<Longrightarrow> \<not> is_header l"
  by (induction ls) (auto dest: set_takeWhileD split: if_splits)

text \<open>Property access returns an entry of the object, and the entry when keys are distinct.\<close>

lemma get_prop_entry: "get_prop v k = Some x \<Longrightarrow> (k, x) \<in> set (entries v)"
  by (auto simp: get_prop_def dest: map_of_SomeD)

lemma get_prop_distinct:
  assumes "distinct (object_keys v)" and "(k, x) \<in> set (entries v)"
  shows "get_prop v k = Some x"
proof -
  have "map fst (rev (entries v)) = rev (object_keys v)"
    by (simp add: object_keys_def rev_map)
  with assms(1) have "distinct (map fst (rev (entries v)))"
    by simp
  moreover from assms(2) have "(k, x) \<in> set (rev (entries v))"
    by simp
  ultimately show ?thesis
    unfolding get_prop_def by (rule map_of_is_SomeI)
qed

lemma scan_content: "i \<in> set (scan st c ls) \<Longrightarrow> content i \<noteq> []"
  by (induction st c ls rule: scan.induct) (auto split: if_splits)

section \<open>The values the files denote\<close>

lemma apps_value:
  "apps =
     [JObj
       [(''name'', JStr ''coda-helper''),
        (''script'', JStr ''run.py''),
        (''interpreter'', JStr ''./venv/bin/python''),
        (''instances'', JNum 1),
        (''exec_mode'', JStr ''fork''),
        (''watch'', JBool True),
        (''env'', JObj [(''PYTHONPATH'', JStr ''.'')])]]"
  by (simp add: apps_def module_exports_def get_prop_def)

text \<open>
  The embedded value agrees with the text of the descriptor: the keys that the lines of
  the file bind and the string literals on them are those of the value, in order.
\<close>

lemma descriptor_text_keys: "List.map_filter bound_key ecosystem_config = js_keys module_exports"
  by code_simp

lemma descriptor_text_strings: "concat (map quoted ecosystem_config) = js_strings module_exports"
  by code_simp

lemma dependencies_value:
  "dependencies =
     [(''python'', Some ''^3.10''),
      (''fastapi'', Some ''^0.111.0''),
      (''pydantic'', Some ''^2.7.1''),
      (''pydantic-settings'', Some ''^2.2.1''),
      (''python-dotenv'', Some ''^1.0.1''),
      (''uvicorn'', Some ''^0.29.0'')]"
  by code_simp

lemma dev_dependencies_value:
  "dev_dependencies =
     [(''asgiref'', Some ''^3.8.1''),
      (''coverage'', Some ''^7.5.1''),
      (''httpx'', Some ''^0.27.0''),
      (''pytest'', Some ''^7.4.4''),
      (''pytest-asyncio'', Some ''^0.21.2''),
      (''pytest-cov'', Some ''^4.1.0''),
      (''pytest-mock'', Some ''^3.14.0'')]"
  by code_simp

text \<open>Every line of the two dependency tables that is not blank is a key/value line.\<close>

lemma dependencies_lines:
  "length (filter (\<lambda>l. trim l \<noteq> []) (table_body ''tool.poetry.dependencies'' pyproject)) = 6"
  by code_simp

lemma dev_dependencies_lines:
  "length (filter (\<lambda>l. trim l \<noteq> [])
     (table_body ''tool.poetry.group.dev.dependencies'' pyproject)) = 7"
  by code_simp

lemma setup_commands:
  "commands_in ''Set up virtual environment'' readme_items =
     [(33, ''pyenv local 3.10.9''),
      (34, ''pyenv exec python3 -m venv venv''),
      (35, ''source ./venv/bin/activate'')]"
  by code_simp

lemma requirements_prose:
  "prose_in ''Requirements'' readme_items =
     [(18, ''- Python 3.10+''), (19, ''- [Poetry](https://python-poetry.org/)'')]"
  by code_simp

section \<open>The claims\<close>

subsection \<open>The descriptor\<close>

text \<open>
  Claim C1, as stated: the descriptor has exactly one app entry, and the entry has exactly
  five keys. The statement fails on the file: the one entry has seven keys.
\<close>

theorem descriptor_keys_not_five:
  "\<not> (length apps = 1 \<and> length (object_keys (hd apps)) = 5)"
proof -
  have "length (object_keys (hd apps)) = 7"
    by (simp add: apps_value object_keys_def)
  then show ?thesis by simp
qed

text \<open>
  Claim C1, amended: the descriptor has exactly one app entry, and the entry has exactly
  seven keys, all different: \<^verbatim>\<open>name\<close>, \<^verbatim>\<open>script\<close>, \<^verbatim>\<open>interpreter\<close>,
  \<^verbatim>\<open>instances\<close>, \<^verbatim>\<open>exec_mode\<close>, \<^verbatim>\<open>watch\<close> and \<^verbatim>\<open>env\<close>, which are the seven keys
  that the external-interface section documents.
\<close>

theorem descriptor_keys_seven:
  "map object_keys apps = [documented_keys] \<and> length documented_keys = 7
     \<and> distinct documented_keys"
  by (simp add: apps_value object_keys_def documented_keys_def)

text \<open>
  Claim C2: the descriptor declares exactly one managed process; its \<^verbatim>\<open>name\<close> is
  \<^verbatim>\<open>coda-helper\<close> and its \<^verbatim>\<open>script\<close> is \<^verbatim>\<open>run.py\<close>.
\<close>

theorem descriptor_name_script:
  "map (\<lambda>a. (get_prop a ''name'', get_prop a ''script'')) apps =
     [(Some (JStr ''coda-helper''), Some (JStr ''run.py''))]"
  by (simp add: apps_value get_prop_def)

text \<open>
  Claim C5: in the single app entry, \<^verbatim>\<open>instances\<close> is the number 1, \<^verbatim>\<open>exec_mode\<close> is
  the string \<^verbatim>\<open>fork\<close> and \<^verbatim>\<open>watch\<close> is the boolean true.
\<close>

theorem descriptor_single_fork_watch:
  "map (\<lambda>a. (get_prop a ''instances'', get_prop a ''exec_mode'', get_prop a ''watch'')) apps =
     [(Some (JNum 1), Some (JStr ''fork''), Some (JBool True))]"
  by (simp add: apps_value get_prop_def)

text \<open>
  Claim C6: the \<^verbatim>\<open>env\<close> mapping of the single app entry has exactly one pair, and its
  variable is \<^verbatim>\<open>PYTHONPATH\<close>, the module search path of the interpreter.
\<close>

theorem descriptor_env:
  "map (\<lambda>a. map_option entries (get_prop a ''env'')) apps =
     [Some [(''PYTHONPATH'', JStr ''.'')]]"
  by (simp add: apps_value get_prop_def)

text \<open>
  Claim C7: the \<^verbatim>\<open>interpreter\<close> of the single app entry is a path inside a
  project-local virtual environment, the one that the README's setup steps create: the
  steps create the directory \<^verbatim>\<open>venv\<close> and activate \<^verbatim>\<open>./venv\<close>, and the interpreter
  is \<^verbatim>\<open>bin/python\<close> inside it.
\<close>

theorem interpreter_in_venv:
  "venv_dirs = [''venv'']
   \<and> map (\<lambda>a. get_prop a ''interpreter'') apps =
       map (\<lambda>d. Some (JStr (''./'' @ d @ ''/bin/python''))) venv_dirs
   \<and> (35, ''source ./venv/bin/activate'')
       \<in> set (commands_in ''Set up virtual environment'' readme_items)"
proof -
  have dirs: "venv_dirs = [''venv'']"
    unfolding venv_dirs_def setup_commands by code_simp
  have "map (\<lambda>a. get_prop a ''interpreter'') apps = [Some (JStr ''./venv/bin/python'')]"
    by (simp add: apps_value get_prop_def)
  then show ?thesis
    unfolding dirs setup_commands by simp
qed

subsection \<open>The packaging manifest\<close>

text \<open>
  Claim C3: besides the interpreter constraint, the runtime dependencies are exactly five
  packages, each under a caret constraint on a three-part version: \<^verbatim>\<open>fastapi\<close> (the web
  framework), \<^verbatim>\<open>pydantic\<close> (data validation), \<^verbatim>\<open>pydantic-settings\<close> (the settings
  loader), \<^verbatim>\<open>python-dotenv\<close> (the dotenv loader) and \<^verbatim>\<open>uvicorn\<close> (the ASGI server).
  The table has no line beyond these six entries.
\<close>

theorem runtime_dependencies:
  "map fst dependencies =
     [''python'', ''fastapi'', ''pydantic'', ''pydantic-settings'', ''python-dotenv'', ''uvicorn'']
   \<and> map (\<lambda>(k, v). (k, Option.bind v caret)) (filter (\<lambda>(k, v). k \<noteq> ''python'') dependencies) =
     [(''fastapi'', Some [0, 111, 0]),
      (''pydantic'', Some [2, 7, 1]),
      (''pydantic-settings'', Some [2, 2, 1]),
      (''python-dotenv'', Some [1, 0, 1]),
      (''uvicorn'', Some [0, 29, 0])]
   \<and> length (filter (\<lambda>l. trim l \<noteq> []) (table_body ''tool.poetry.dependencies'' pyproject))
       = length dependencies"
proof (intro conjI)
  show "map fst dependencies =
     [''python'', ''fastapi'', ''pydantic'', ''pydantic-settings'', ''python-dotenv'', ''uvicorn'']"
    by (simp add: dependencies_value)
  show "map (\<lambda>(k, v). (k, Option.bind v caret)) (filter (\<lambda>(k, v). k \<noteq> ''python'') dependencies) =
     [(''fastapi'', Some [0, 111, 0]),
      (''pydantic'', Some [2, 7, 1]),
      (''pydantic-settings'', Some [2, 2, 1]),
      (''python-dotenv'', Some [1, 0, 1]),
      (''uvicorn'', Some [0, 29, 0])]"
    unfolding dependencies_value by code_simp
  show "length (filter (\<lambda>l. trim l \<noteq> []) (table_body ''tool.poetry.dependencies'' pyproject))
       = length dependencies"
    by (simp add: dependencies_lines dependencies_value)
qed

text \<open>
  Claim C4, as stated: the development dependencies are exactly the five packages for
  the test runner, coverage, the HTTP test client, mocking and async tests. The statement
  fails on the manifest: \<^verbatim>\<open>asgiref\<close> is a development dependency and none of the five.
\<close>

theorem dev_dependencies_not_five:
  "\<not> (set (map fst dev_dependencies) =
        {''pytest'', ''coverage'', ''httpx'', ''pytest-mock'', ''pytest-asyncio''})"
proof
  assume eq: "set (map fst dev_dependencies) =
        {''pytest'', ''coverage'', ''httpx'', ''pytest-mock'', ''pytest-asyncio''}"
  have "''asgiref'' \<in> set (map fst dev_dependencies)"
    by (simp add: dev_dependencies_value)
  with eq have "''asgiref'' \<in> {''pytest'', ''coverage'', ''httpx'', ''pytest-mock'', ''pytest-asyncio''}"
    by simp
  then show False by simp
qed

text \<open>
  Claim C4, amended: the development dependencies are exactly seven packages:
  \<^verbatim>\<open>asgiref\<close>, \<^verbatim>\<open>coverage\<close>, \<^verbatim>\<open>httpx\<close>, \<^verbatim>\<open>pytest\<close>, \<^verbatim>\<open>pytest-asyncio\<close>,
  \<^verbatim>\<open>pytest-cov\<close> and \<^verbatim>\<open>pytest-mock\<close>. The test runner, the coverage tool, the HTTP
  test client, the mocking plugin and the async test plugin are among them, and the table
  has no line beyond the seven entries.
\<close>

theorem dev_dependencies_seven:
  "map fst dev_dependencies =
     [''asgiref'', ''coverage'', ''httpx'', ''pytest'', ''pytest-asyncio'', ''pytest-cov'',
      ''pytest-mock'']
   \<and> list_all (\<lambda>n. n \<in> set (map fst dev_dependencies))
       [''pytest'', ''coverage'', ''httpx'', ''pytest-mock'', ''pytest-asyncio'']
   \<and> length (filter (\<lambda>l. trim l \<noteq> [])
       (table_body ''tool.poetry.group.dev.dependencies'' pyproject)) = length dev_dependencies"
  by (simp add: dev_dependencies_value dev_dependencies_lines)

text \<open>
  Claim C8: the manifest's \<^verbatim>\<open>python\<close> dependency is \<^verbatim>\<open>^3.10\<close>, whose least version
  3.10 is the one that the README requires (\<^verbatim>\<open>Python 3.10+\<close>, line 18).
\<close>

theorem python_constraint:
  "map_of dependencies ''python'' = Some (Some ''^3.10'')
   \<and> caret ''^3.10'' = Some [3, 10]
   \<and> python_requirements = [(18, [3, 10])]"
proof (intro conjI)
  show "map_of dependencies ''python'' = Some (Some ''^3.10'')"
    by (simp add: dependencies_value)
  show "caret ''^3.10'' = Some [3, 10]"
    by code_simp
  show "python_requirements = [(18, [3, 10])]"
    unfolding python_requirements_def requirements_prose by code_simp
qed

text \<open>
  Claim C10: the coverage configuration measures exactly one source root, the module
  \<^verbatim>\<open>main\<close>, and tracks exactly the concurrency models \<^verbatim>\<open>greenlet\<close> and
  \<^verbatim>\<open>thread\<close>; no other place of the supplied files names that module. The letters
  occur on two lines of the manifest only: line 93, the setting itself, and line 102,
  inside the identifier \<^verbatim>\<open>__main__\<close> of a pattern for excluded lines, which is
  another name. The README and the descriptor do not hold them at all.
\<close>

theorem coverage_source_main:
  "coverage_run =
     [(''source'', Some [''main'']), (''concurrency'', Some [''greenlet'', ''thread''])]
   \<and> occurrences ''main'' 1 pyproject = [(93, [''main'']), (102, [''__main__''])]
   \<and> occurrences ''main'' 14 readme = []
   \<and> occurrences ''main'' 1 ecosystem_config = []"
proof (intro conjI)
  show "coverage_run =
     [(''source'', Some [''main'']), (''concurrency'', Some [''greenlet'', ''thread''])]"
    by code_simp
  show "occurrences ''main'' 1 pyproject = [(93, [''main'']), (102, [''__main__''])]"
    by code_simp
  show "occurrences ''main'' 14 readme = []"
    by code_simp
  show "occurrences ''main'' 1 ecosystem_config = []"
    by code_simp
qed

subsection \<open>The README\<close>

text \<open>
  Claim C9: the README documents exactly two operator-facing commands, \<^verbatim>\<open>run\<close> and
  \<^verbatim>\<open>test\<close>, both handed to \<^verbatim>\<open>make\<close>, with no flag, argument or exit code. The
  section \<^verbatim>\<open>Running\<close>, with its subsection on tests, holds the two commands
  \<^verbatim>\<open>make run\<close> and \<^verbatim>\<open>make test\<close>, each the tool and a target and nothing more, and
  one sentence of prose before each. The only other call of the tool in the README is
  the installation step for the git hooks. No line of the supplied files is a rule for
  either target: the make file is not among them.
\<close>

theorem operator_commands:
  "commands_in ''Running'' readme_items = [(58, ''make run''), (66, ''make test'')]
   \<and> map (\<lambda>(n, c). words_of c) (commands_in ''Running'' readme_items) =
       [[''make'', ''run''], [''make'', ''test'']]
   \<and> prose_in ''Running'' readme_items =
       [(55, ''Inside the virtual environment, run''),
        (63, ''Inside the virtual environment, run'')]
   \<and> map (\<lambda>(p, w). (take 2 p, w)) (make_commands readme_items) =
       [([''FastAPI Service Template'', ''Installation''], [''make'', ''install-git-hooks'']),
        ([''FastAPI Service Template'', ''Running''], [''make'', ''run'']),
        ([''FastAPI Service Template'', ''Running''], [''make'', ''test''])]
   \<and> rules_for ''run'' (ecosystem_config @ readme @ pyproject) = []
   \<and> rules_for ''test'' (ecosystem_config @ readme @ pyproject) = []"
proof -
  have running: "commands_in ''Running'' readme_items = [(58, ''make run''), (66, ''make test'')]"
    by code_simp
  have ws: "map (\<lambda>(n, c). words_of c) [(58 :: nat, ''make run''), (66, ''make test'')] =
       [[''make'', ''run''], [''make'', ''test'']]"
    by code_simp
  have prose: "prose_in ''Running'' readme_items =
       [(55, ''Inside the virtual environment, run''),
        (63, ''Inside the virtual environment, run'')]"
    by code_simp
  have makes: "map (\<lambda>(p, w). (take 2 p, w)) (make_commands readme_items) =
       [([''FastAPI Service Template'', ''Installation''], [''make'', ''install-git-hooks'']),
        ([''FastAPI Service Template'', ''Running''], [''make'', ''run'']),
        ([''FastAPI Service Template'', ''Running''], [''make'', ''test''])]"
    by code_simp
  have rules: "rules_for ''run'' (ecosystem_config @ readme @ pyproject) = []"
    "rules_for ''test'' (ecosystem_config @ readme @ pyproject) = []"
    by code_simp+
  from running ws prose makes rules show ?thesis
    by (simp only: simp_thms)
qed

end
